theory Spec2Isabelle
  imports Main "HOL-Library.Multiset"
begin

section \<open>The gateway of \<^verbatim>\<open>api/main.go\<close>\<close>

text \<open>
  The handler translates a chat-completion request into one query against the upstream
  search API and translates the upstream's line-oriented event stream back. Go strings are
  byte sequences and are modelled as \<^typ>\<open>string\<close>. Library calls whose code is not
  part of the repository (the JSON decoder, the clock, the HTTP client, the order in which
  \<^verbatim>\<open>range\<close> visits a map) are parameters of the model, collected in the record
  \<open>Env\<close> below.
\<close>

subsection \<open>String helpers of package \<^verbatim>\<open>strings\<close> and \<^verbatim>\<open>fmt\<close>\<close>

definition HasPrefix :: "string \<Rightarrow> string \<Rightarrow> bool" where
  "HasPrefix s p = (take (length p) s = p)"

definition TrimPrefix :: "string \<Rightarrow> string \<Rightarrow> string" where
  "TrimPrefix s p = (if HasPrefix s p then drop (length p) s else s)"

fun Join :: "string list \<Rightarrow> string \<Rightarrow> string" where
  "Join [] sep = []"
| "Join [x] sep = x"
| "Join (x # y # ys) sep = x @ sep @ Join (y # ys) sep"

definition digit :: "nat \<Rightarrow> char" where
  "digit d = ''0123456789'' ! d"

function digits :: "nat \<Rightarrow> string" where
  "digits n = (if n < 10 then [digit n] else digits (n div 10) @ [digit (n mod 10)])"
  by pat_completeness auto
termination
  by (relation "measure (\<lambda>n. n)") auto

declare digits.simps [simp del]

definition Sprintf_d :: "int \<Rightarrow> string" where
  \<comment> \<open>\<^verbatim>\<open>fmt.Sprintf("%d", n)\<close>\<close>
  "Sprintf_d n = (if n < 0 then CHR ''-'' # digits (nat (- n)) else digits (nat n))"

subsection \<open>The model table (lines 82--134)\<close>

definition modelMap :: "(string \<times> string) list" where
  "modelMap =
    [(''deepseek-reasoner'', ''deepseek_r1''),
     (''deepseek-chat'', ''deepseek_v3''),
     (''o3-mini-high'', ''openai_o3_mini_high''),
     (''o3-mini-medium'', ''openai_o3_mini_medium''),
     (''o1'', ''openai_o1''),
     (''o1-mini'', ''openai_o1_mini''),
     (''o1-preview'', ''openai_o1_preview''),
     (''gpt-4o'', ''gpt_4o''),
     (''gpt-4o-mini'', ''gpt_4o_mini''),
     (''gpt-4-turbo'', ''gpt_4_turbo''),
     (''gpt-3.5-turbo'', ''gpt_3.5''),
     (''claude-3-opus'', ''claude_3_opus''),
     (''claude-3-sonnet'', ''claude_3_sonnet''),
     (''claude-3.5-sonnet'', ''claude_3_5_sonnet''),
     (''claude-3.5-haiku'', ''claude_3_5_haiku''),
     (''gemini-1.5-pro'', ''gemini_1_5_pro''),
     (''gemini-1.5-flash'', ''gemini_1_5_flash''),
     (''llama-3.2-90b'', ''llama3_2_90b''),
     (''llama-3.1-405b'', ''llama3_1_405b''),
     (''mistral-large-2'', ''mistral_large_2''),
     (''qwen-2.5-72b'', ''qwen2p5_72b''),
     (''qwen-2.5-coder-32b'', ''qwen2p5_coder_32b''),
     (''command-r-plus'', ''command_r_plus''),
     (''claude-3-7-sonnet'', ''claude_3_7_sonnet''),
     (''claude-3-7-sonnet-think'', ''claude_3_7_sonnet_thinking'')]"

text \<open>
  \<^verbatim>\<open>getReverseModelMap\<close> ranges over the Go map, which visits the entries in an
  order the language leaves open. The order is the argument \<open>visit\<close>: the entries of
  \<open>modelMap\<close> as one such iteration meets them. A later entry overwrites an earlier one
  with the same upstream name.
\<close>

definition reverse_put :: "(string \<rightharpoonup> string) \<Rightarrow> string \<times> string \<Rightarrow> (string \<rightharpoonup> string)" where
  \<comment> \<open>the loop body \<^verbatim>\<open>reverse[v] = k\<close>\<close>
  "reverse_put reverse kv = (case kv of (k, v) \<Rightarrow> reverse(v \<mapsto> k))"

definition getReverseModelMap :: "(string \<times> string) list \<Rightarrow> (string \<rightharpoonup> string)" where
  "getReverseModelMap visit = foldl reverse_put Map.empty visit"

definition mapModelName :: "string \<Rightarrow> string" where
  "mapModelName openAIModel =
     (case map_of modelMap openAIModel of
        Some mappedModel \<Rightarrow> mappedModel
      | None \<Rightarrow> ''deepseek_v3'')"

definition reverseMapModelName :: "(string \<times> string) list \<Rightarrow> string \<Rightarrow> string" where
  "reverseMapModelName visit youModel =
     (case getReverseModelMap visit youModel of
        Some mappedModel \<Rightarrow> mappedModel
      | None \<Rightarrow> ''deepseek-chat'')"

subsection \<open>Wire types (lines 12--79)\<close>

text \<open>
  The Go structs share field names (\<^verbatim>\<open>Content\<close>, \<^verbatim>\<open>Model\<close>, \<^verbatim>\<open>Choices\<close>, ...);
  a record field is a constant of the theory, so the fields of the response structs carry
  the struct as a prefix. \<^verbatim>\<open>int\<close> and \<^verbatim>\<open>int64\<close> values are only stored and printed,
  never computed with beyond \<^verbatim>\<open>len - 1\<close>, and are modelled as \<^typ>\<open>int\<close>.
\<close>

record YouChatResponse =
  YouChatToken :: string

record Delta =
  Delta_Content :: string

record Choice =
  Choice_Delta :: Delta
  Choice_Index :: int
  Choice_FinishReason :: string

record OpenAIStreamResponse =
  Chunk_ID :: string
  Chunk_Object :: string
  Chunk_Created :: int
  Chunk_Model :: string
  Chunk_Choices :: "Choice list"

record Message =
  Role :: string
  Content :: string

record OpenAIRequest =
  Messages :: "Message list"
  Stream :: bool
  Model :: string

record OpenAIChoice =
  OpenAIChoice_Message :: Message
  OpenAIChoice_Index :: int
  OpenAIChoice_FinishReason :: string

record OpenAIResponse =
  Response_ID :: string
  Response_Object :: string
  Response_Created :: int
  Response_Model :: string
  Response_Choices :: "OpenAIChoice list"

record ModelDetail =
  Detail_ID :: string
  Detail_Object :: string
  Detail_Created :: int
  Detail_OwnedBy :: string

record ModelResponse =
  List_Object :: string
  List_Data :: "ModelDetail list"

text \<open>One element of \<^verbatim>\<open>chatHistory\<close>: a Go map with the two keys \<^verbatim>\<open>question\<close> and \<^verbatim>\<open>answer\<close>.\<close>

record chatMsg =
  question :: string
  answer :: string

subsection \<open>The outbound request and the client connection\<close>

text \<open>
  A query value is a string, or the JSON text of the chat history, kept as the value that
  \<^verbatim>\<open>json.Marshal\<close> serialises. The query is the list of \<^verbatim>\<open>q.Add\<close> calls in order.
\<close>

datatype QueryValue = QString string | QJson "chatMsg list"

record YouRequest =
  Req_Method :: string
  Req_URL :: string
  Req_Query :: "(string \<times> QueryValue) list"
  Req_Header :: "(string \<times> string) list"

text \<open>
  What the handler writes to the client, before serialisation: \<open>PlainText\<close> is a line
  written by \<^verbatim>\<open>http.Error\<close>, \<open>ChunkEvent\<close> one \<^verbatim>\<open>data: <json>\<close> record of the
  event stream, the others a JSON document written by an encoder.
\<close>

datatype Payload =
    PlainText string
  | ChatCompletion OpenAIResponse
  | ChunkEvent OpenAIStreamResponse
  | ModelList ModelResponse
  | StatusObject "(string \<times> string) list"

text \<open>
  The \<^verbatim>\<open>http.ResponseWriter\<close>: whether it implements \<^verbatim>\<open>http.Flusher\<close>, whether
  writes to the client fail, the status code once it is fixed, the header map and the
  payloads written so far.
\<close>

record ResponseWriter =
  Flusher :: bool
  Broken :: bool
  Status :: "nat option"
  Header :: "string \<rightharpoonup> string"
  Written :: "Payload list"

definition Header_Set :: "ResponseWriter \<Rightarrow> string \<Rightarrow> string \<Rightarrow> ResponseWriter" where
  "Header_Set w k v = w\<lparr>Header := (Header w)(k \<mapsto> v)\<rparr>"

definition WriteHeader :: "ResponseWriter \<Rightarrow> nat \<Rightarrow> ResponseWriter" where
  \<comment> \<open>the first status code wins; a later call is ignored\<close>
  "WriteHeader w code = (case Status w of None \<Rightarrow> w\<lparr>Status := Some code\<rparr> | Some c \<Rightarrow> w)"

definition Write :: "ResponseWriter \<Rightarrow> Payload \<Rightarrow> bool \<times> ResponseWriter" where
  \<comment> \<open>returns whether the write failed; the first write fixes status 200 if none is set\<close>
  "Write w p =
     (if Broken w then (True, w)
      else (False, (WriteHeader w 200)\<lparr>Written := Written w @ [p]\<rparr>))"

definition http_Error :: "ResponseWriter \<Rightarrow> string \<Rightarrow> nat \<Rightarrow> ResponseWriter" where
  "http_Error w msg code =
     (let w = Header_Set w ''Content-Type'' ''text/plain; charset=utf-8'';
          w = Header_Set w ''X-Content-Type-Options'' ''nosniff'';
          w = WriteHeader w code
      in snd (Write w (PlainText (msg @ [CHR 0x0A]))))"

subsection \<open>The line scanner over the upstream body\<close>

text \<open>
  A \<^verbatim>\<open>bufio.Scanner\<close> with the default line splitter, over a body given as the lines
  it yields and whether reading ends in an error instead of the end of the stream. The
  model covers bodies whose lines fit the scanner's buffer: there a \<^verbatim>\<open>Scan\<close> that has
  returned false keeps returning false, and after it \<^verbatim>\<open>Text\<close> is the empty string and
  \<^verbatim>\<open>Err\<close> reports the read error, if any.
\<close>

record Scanner =
  pending :: "string list"
  ends_in_error :: bool
  Text :: string
  Err :: bool

definition NewScanner :: "string list \<Rightarrow> bool \<Rightarrow> Scanner" where
  "NewScanner ls e = \<lparr>pending = ls, ends_in_error = e, Text = [], Err = False\<rparr>"

definition Scan :: "Scanner \<Rightarrow> bool \<times> Scanner" where
  "Scan scanner =
     (case pending scanner of
        [] \<Rightarrow> (False, scanner\<lparr>Text := [], Err := ends_in_error scanner\<rparr>)
      | l # ls \<Rightarrow> (True, scanner\<lparr>pending := ls, Text := l\<rparr>))"

subsection \<open>The environment and the state\<close>

datatype DoResult = DoError string | DoResponse "string list" bool

text \<open>
  \<open>Unmarshal\<close> is \<^verbatim>\<open>json.Unmarshal\<close> into a \<^verbatim>\<open>YouChatResponse\<close>: from the bytes and
  the destination it gives whether an error is returned and the destination afterwards.
  \<open>Now_Unix n\<close> is the \<open>n\<close>-th reading of the clock. \<open>range_map\<close> gives the order in
  which a \<^verbatim>\<open>range\<close> visits the entries of a map. \<open>client_Do\<close> is the upstream's
  answer to a request: a transport error, or a body as lines.
\<close>

record Env =
  Unmarshal :: "string \<Rightarrow> YouChatResponse \<Rightarrow> bool \<times> YouChatResponse"
  Now_Unix :: "nat \<Rightarrow> int"
  range_map :: "(string \<times> string) list \<Rightarrow> (string \<times> string) list"
  client_Do :: "YouRequest \<Rightarrow> DoResult"

text \<open>
  The state a request runs in: the client connection, the package variable
  \<^verbatim>\<open>originalModel\<close>, the requests handed to \<^verbatim>\<open>client.Do\<close> so far and the number of
  clock readings taken.
\<close>

record World =
  w :: ResponseWriter
  originalModel :: string
  sent :: "YouRequest list"
  ticks :: nat

datatype Outcome = Return World | Panic string World

text \<open>The two run-time panics the handler can raise, by their messages.\<close>

definition panic_index :: string where
  \<comment> \<open>\<^verbatim>\<open>Messages[len(Messages)-1]\<close> on an empty slice\<close>
  "panic_index = ''runtime error: index out of range [-1]''"

definition panic_not_flusher :: string where
  \<comment> \<open>the type assertion \<^verbatim>\<open>w.(http.Flusher)\<close> on a writer that cannot flush\<close>
  "panic_not_flusher = ''interface conversion: http.ResponseWriter is not http.Flusher''"

record Request =
  URL_Path :: string
  Method :: string
  Authorization :: string
  Body_Decode :: "OpenAIRequest option"

subsection \<open>The two response handlers (lines 298--417)\<close>

definition token_event :: string where
  "token_event = ''event: youChatToken''"

definition data_prefix :: string where
  "data_prefix = ''data: ''"

definition zero_token :: YouChatResponse where
  \<comment> \<open>\<^verbatim>\<open>var token YouChatResponse\<close>\<close>
  "zero_token = \<lparr>YouChatToken = []\<rparr>"

text \<open>The scanning loop of \<^verbatim>\<open>handleNonStreamingResponse\<close> (lines 318--332).\<close>

function nonStreamingLoop :: "Env \<Rightarrow> Scanner \<Rightarrow> string \<Rightarrow> Scanner \<times> string" where
  "nonStreamingLoop env scanner fullResponse =
     (if fst (Scan scanner) then
        (let scanner = snd (Scan scanner);
             line = Text scanner
         in if HasPrefix line token_event then
              (let scanner = snd (Scan scanner);
                   data = Text scanner
               in if \<not> HasPrefix data data_prefix then nonStreamingLoop env scanner fullResponse
                  else (let result = Unmarshal env (TrimPrefix data data_prefix) zero_token
                        in if fst result then nonStreamingLoop env scanner fullResponse
                           else nonStreamingLoop env scanner
                                  (fullResponse @ YouChatToken (snd result))))
            else nonStreamingLoop env scanner fullResponse)
      else (snd (Scan scanner), fullResponse))"
  by pat_completeness auto
termination
  by (relation "measure (\<lambda>(env, scanner, fullResponse). length (pending scanner))")
     (auto simp: Scan_def split: list.splits)

declare nonStreamingLoop.simps [simp del]

definition completion :: "Env \<Rightarrow> World \<Rightarrow> string \<Rightarrow> OpenAIResponse" where
  \<comment> \<open>the struct literal of lines 340--355, with its two clock readings\<close>
  "completion env s fullResponse =
     \<lparr>Response_ID = ''chatcmpl-'' @ Sprintf_d (Now_Unix env (ticks s)),
      Response_Object = ''chat.completion'',
      Response_Created = Now_Unix env (ticks s + 1),
      Response_Model =
        reverseMapModelName (range_map env modelMap) (mapModelName (originalModel s)),
      Response_Choices =
        [\<lparr>OpenAIChoice_Message = \<lparr>Role = ''assistant'', Content = fullResponse\<rparr>,
           OpenAIChoice_Index = 0,
           OpenAIChoice_FinishReason = ''stop''\<rparr>]\<rparr>"

definition handleNonStreamingResponse :: "Env \<Rightarrow> World \<Rightarrow> YouRequest \<Rightarrow> Outcome" where
  "handleNonStreamingResponse env s youReq =
     (let s = s\<lparr>sent := sent s @ [youReq]\<rparr>
      in case client_Do env youReq of
           DoError e \<Rightarrow> Return (s\<lparr>w := http_Error (w s) e 500\<rparr>)
         | DoResponse body body_err \<Rightarrow>
             (let scanned = nonStreamingLoop env (NewScanner body body_err) [];
                  scanner = fst scanned;
                  fullResponse = snd scanned
              in if Err scanner
                 then Return (s\<lparr>w := http_Error (w s) ''Error reading response'' 500\<rparr>)
                 else
                   (let openAIResp = completion env s fullResponse;
                        s = s\<lparr>ticks := ticks s + 2\<rparr>;
                        encoded =
                          Write (Header_Set (w s) ''Content-Type'' ''application/json'')
                            (ChatCompletion openAIResp)
                    in if fst encoded
                       then Return (s\<lparr>w := http_Error (snd encoded) ''Error encoding response'' 500\<rparr>)
                       else Return (s\<lparr>w := snd encoded\<rparr>))))"

text \<open>
  The scanning loop of \<^verbatim>\<open>handleStreamingResponse\<close> (lines 381--412). The result of the
  second \<^verbatim>\<open>Scan\<close> and the error of \<^verbatim>\<open>json.Unmarshal\<close> are not looked at; the type
  assertion \<^verbatim>\<open>w.(http.Flusher)\<close> panics on a writer that cannot flush.
\<close>

definition streamChunk :: "Env \<Rightarrow> World \<Rightarrow> YouChatResponse \<Rightarrow> OpenAIStreamResponse" where
  \<comment> \<open>the struct literal of lines 392--406, with its two clock readings\<close>
  "streamChunk env s token =
     \<lparr>Chunk_ID = ''chatcmpl-'' @ Sprintf_d (Now_Unix env (ticks s)),
      Chunk_Object = ''chat.completion.chunk'',
      Chunk_Created = Now_Unix env (ticks s + 1),
      Chunk_Model =
        reverseMapModelName (range_map env modelMap) (mapModelName (originalModel s)),
      Chunk_Choices =
        [\<lparr>Choice_Delta = \<lparr>Delta_Content = YouChatToken token\<rparr>,
           Choice_Index = 0,
           Choice_FinishReason = []\<rparr>]\<rparr>"

function streamingLoop :: "Env \<Rightarrow> Scanner \<Rightarrow> World \<Rightarrow> Outcome" where
  "streamingLoop env scanner s =
     (if fst (Scan scanner) then
        (let scanner = snd (Scan scanner);
             line = Text scanner
         in if HasPrefix line token_event then
              (let scanner = snd (Scan scanner);
                   data = Text scanner;
                   token = snd (Unmarshal env (TrimPrefix data data_prefix) zero_token);
                   openAIResp = streamChunk env s token;
                   s = s\<lparr>w := snd (Write (w s) (ChunkEvent openAIResp)), ticks := ticks s + 2\<rparr>
               in if Flusher (w s) then streamingLoop env scanner s
                  else Panic panic_not_flusher s)
            else streamingLoop env scanner s)
      else Return s)"
  by pat_completeness auto
termination
  by (relation "measure (\<lambda>(env, scanner, s). length (pending scanner))")
     (auto simp: Scan_def split: list.splits)

declare streamingLoop.simps [simp del]

definition handleStreamingResponse :: "Env \<Rightarrow> World \<Rightarrow> YouRequest \<Rightarrow> Outcome" where
  "handleStreamingResponse env s youReq =
     (let s = s\<lparr>sent := sent s @ [youReq]\<rparr>
      in case client_Do env youReq of
           DoError e \<Rightarrow> Return (s\<lparr>w := http_Error (w s) e 500\<rparr>)
         | DoResponse body body_err \<Rightarrow>
             (let w1 = Header_Set (w s) ''Content-Type'' ''text/event-stream'';
                  w2 = Header_Set w1 ''Cache-Control'' ''no-cache'';
                  w3 = Header_Set w2 ''Connection'' ''keep-alive''
              in streamingLoop env (NewScanner body body_err) (s\<lparr>w := w3\<rparr>)))"

subsection \<open>The handler (lines 139--296)\<close>

definition getCookies :: "string \<Rightarrow> (string \<times> string) list" where
  "getCookies dsToken =
     [(''guest_has_seen_legal_disclaimer'', ''true''),
      (''youchat_personalization'', ''true''),
      (''DS'', dsToken),
      (''you_subscription'', ''youpro_standard_year''),
      (''youpro_subscription'', ''true''),
      (''ai_model'', ''deepseek_r1''),
      (''youchat_smart_learn'', ''true'')]"

text \<open>The loop over the messages that builds \<^verbatim>\<open>chatHistory\<close> (lines 212--224).\<close>

definition chatMsg_of :: "Message \<Rightarrow> chatMsg" where
  "chatMsg_of msg =
     (let chatMsg = \<lparr>question = Content msg, answer = []\<rparr>
      in if Role msg = ''assistant''
         then chatMsg\<lparr>question := [], answer := Content msg\<rparr>
         else chatMsg)"

primrec buildChatHistory :: "Message list \<Rightarrow> chatMsg list \<Rightarrow> chatMsg list" where
  "buildChatHistory [] chatHistory = chatHistory"
| "buildChatHistory (msg # msgs) chatHistory =
     buildChatHistory msgs (chatHistory @ [chatMsg_of msg])"

definition youHeader :: "(string \<times> string) list" where
  \<open>youHeader =
     [(''sec-ch-ua-platform'', ''Windows''),
      (''Cache-Control'', ''no-cache''),
      (''sec-ch-ua'', ''"Not(A:Brand";v="99", "Microsoft Edge";v="133", "Chromium";v="133"''),
      (''sec-ch-ua-bitness'', ''64''),
      (''sec-ch-ua-model'', []),
      (''sec-ch-ua-mobile'', ''?0''),
      (''sec-ch-ua-arch'', ''x86''),
      (''sec-ch-ua-full-version'', ''133.0.3065.39''),
      (''Accept'', ''text/event-stream''),
      (''User-Agent'', ''Mozilla/5.0 (Windows NT 10.0; Win64; x64) AppleWebKit/537.36 (KHTML, like Gecko) Chrome/133.0.0.0 Safari/537.36 Edg/133.0.0.0''),
      (''sec-ch-ua-platform-version'', ''19.0.0''),
      (''Sec-Fetch-Site'', ''same-origin''),
      (''Sec-Fetch-Mode'', ''cors''),
      (''Sec-Fetch-Dest'', ''empty''),
      (''Host'', ''you.com'')]\<close>

text \<open>The upstream request built from the decoded body (lines 229--274).\<close>

definition buildYouRequest ::
  "Env \<Rightarrow> string \<Rightarrow> OpenAIRequest \<Rightarrow> string \<Rightarrow> chatMsg list \<Rightarrow> YouRequest" where
  "buildYouRequest env dsToken openAIReq lastMessage chatHistory =
     (let q =
            [(''q'', QString lastMessage),
             (''page'', QString ''1''),
             (''count'', QString ''10''),
             (''safeSearch'', QString ''Moderate''),
             (''mkt'', QString ''zh-HK''),
             (''enable_worklow_generation_ux'', QString ''true''),
             (''domain'', QString ''youchat''),
             (''use_personalization_extraction'', QString ''true''),
             (''pastChatLength'', QString (Sprintf_d (int (length chatHistory) - 1))),
             (''selectedChatMode'', QString ''custom''),
             (''selectedAiModel'', QString (mapModelName (Model openAIReq))),
             (''enable_agent_clarification_questions'', QString ''true''),
             (''use_nested_youchat_updates'', QString ''true''),
             (''chat'', QJson chatHistory)];
          cookies = getCookies dsToken;
          cookieStrings = map (\<lambda>(name, val). name @ ''='' @ val) (range_map env cookies)
      in \<lparr>Req_Method = ''GET'',
          Req_URL = ''https://you.com/api/streamingSearch'',
          Req_Query = q,
          Req_Header = youHeader @ [(''Cookie'', Join cookieStrings '';'')]\<rparr>)"

definition cors :: "ResponseWriter \<Rightarrow> string \<Rightarrow> ResponseWriter" where
  "cors w0 methods =
     (let w1 = Header_Set w0 ''Access-Control-Allow-Origin'' ''*'';
          w2 = Header_Set w1 ''Access-Control-Allow-Methods'' methods
      in Header_Set w2 ''Access-Control-Allow-Headers'' ''*'')"

definition Handler :: "Env \<Rightarrow> Request \<Rightarrow> World \<Rightarrow> Outcome" where
  "Handler env r s =
     (if URL_Path r = ''/v1/models'' \<or> URL_Path r = ''/api/v1/models'' then
        (let w1 = cors (Header_Set (w s) ''Content-Type'' ''application/json'') ''GET, OPTIONS''
         in if Method r = ''OPTIONS'' then Return (s\<lparr>w := WriteHeader w1 200\<rparr>)
            else
              (let created = Now_Unix env (ticks s);
                   models =
                     map (\<lambda>(modelID, youModel).
                            \<lparr>Detail_ID = modelID, Detail_Object = ''model'',
                             Detail_Created = created,
                             Detail_OwnedBy = ''organization-owner''\<rparr>)
                       (range_map env modelMap);
                   response = \<lparr>List_Object = ''list'', List_Data = models\<rparr>
               in Return (s\<lparr>w := snd (Write w1 (ModelList response)),
                             ticks := ticks s + 1\<rparr>)))
      else if URL_Path r \<noteq> ''/v1/chat/completions''
              \<and> URL_Path r \<noteq> ''/none/v1/chat/completions''
              \<and> URL_Path r \<noteq> ''/such/chat/completions'' then
        (let w1 = Header_Set (w s) ''Content-Type'' ''application/json''
         in Return (s\<lparr>w := snd (Write w1
                       (StatusObject [(''status'', ''You2Api Service Running...''),
                                      (''message'', ''MoLoveSze...'')]))\<rparr>))
      else
        (let w1 = cors (w s) ''GET, POST, OPTIONS''
         in if Method r = ''OPTIONS'' then Return (s\<lparr>w := WriteHeader w1 200\<rparr>)
            else
              (let authHeader = Authorization r
               in if \<not> HasPrefix authHeader ''Bearer ''
                  then Return (s\<lparr>w := http_Error w1
                                 ''Missing or invalid authorization header'' 401\<rparr>)
                  else
                    (let dsToken = TrimPrefix authHeader ''Bearer ''
                     in case Body_Decode r of
                          None \<Rightarrow> Return (s\<lparr>w := http_Error w1 ''Invalid request body'' 400\<rparr>)
                        | Some openAIReq \<Rightarrow>
                            (let s = s\<lparr>w := w1, originalModel := Model openAIReq\<rparr>
                             in if Messages openAIReq = []
                                then Panic panic_index s
                                else
                                  (let lastMessage = Content (last (Messages openAIReq));
                                       chatHistory = buildChatHistory (Messages openAIReq) [];
                                       youReq = buildYouRequest env dsToken openAIReq
                                                  lastMessage chatHistory
                                   in if \<not> Stream openAIReq
                                      then handleNonStreamingResponse env s youReq
                                      else handleStreamingResponse env s youReq))))))"

subsection \<open>Vocabulary for the properties\<close>

text \<open>The state at which a run of the handler ends, by return or by panic.\<close>

fun world_of :: "Outcome \<Rightarrow> World" where
  "world_of (Return s) = s"
| "world_of (Panic msg s) = s"

fun panicked :: "Outcome \<Rightarrow> string option" where
  "panicked (Return s) = None"
| "panicked (Panic msg s) = Some msg"

text \<open>
  A request that reaches the authorization check: one of the three chat-completion paths,
  with a method other than \<^verbatim>\<open>OPTIONS\<close>.
\<close>

definition chat_route :: "Request \<Rightarrow> bool" where
  "chat_route r =
     ((URL_Path r = ''/v1/chat/completions'' \<or> URL_Path r = ''/none/v1/chat/completions''
         \<or> URL_Path r = ''/such/chat/completions'')
      \<and> Method r \<noteq> ''OPTIONS'')"

text \<open>A connection as the server hands it to the handler, and the state before the first request.\<close>

definition new_writer :: ResponseWriter where
  "new_writer = \<lparr>Flusher = True, Broken = False, Status = None, Header = Map.empty, Written = []\<rparr>"

definition new_world :: World where
  "new_world = \<lparr>w = new_writer, originalModel = [], sent = [], ticks = 0\<rparr>"

text \<open>What the streaming loop does to the state for one token event.\<close>

definition emit :: "Env \<Rightarrow> World \<Rightarrow> YouChatResponse \<Rightarrow> World" where
  "emit env s token =
     s\<lparr>w := snd (Write (w s) (ChunkEvent (streamChunk env s token))), ticks := ticks s + 2\<rparr>"

text \<open>
  An upstream body as a sequence of items: a line that is not a token-event marker, or a
  token event, that is a marker line and the data line after it. A token event is well formed
  when its data line has the \<^verbatim>\<open>data: \<close> prefix and the rest decodes without error; its
  text is the decoded token.
\<close>

datatype Item = Other string | TokenEvent string string

fun item_lines :: "Item \<Rightarrow> string list" where
  "item_lines (Other l) = [l]"
| "item_lines (TokenEvent m d) = [m, d]"

definition frame :: "Item list \<Rightarrow> string list" where
  "frame items = concat (map item_lines items)"

definition decoded :: "Env \<Rightarrow> string \<Rightarrow> bool \<times> YouChatResponse" where
  "decoded env d = Unmarshal env (TrimPrefix d data_prefix) zero_token"

fun well_formed :: "Env \<Rightarrow> Item \<Rightarrow> bool" where
  "well_formed env (Other l) = (\<not> HasPrefix l token_event)"
| "well_formed env (TokenEvent m d) =
     (HasPrefix m token_event \<and> HasPrefix d data_prefix \<and> \<not> fst (decoded env d))"



definition delta_texts :: "OpenAIStreamResponse \<Rightarrow> string list" where
  "delta_texts chunk = map (\<lambda>c. Delta_Content (Choice_Delta c)) (Chunk_Choices chunk)"

text \<open>
  A decoder and an environment for closed instances. The decoder accepts the objects
  \<^verbatim>\<open>{"youChatToken":"<text>"}\<close> whose text is made of the characters of
  \<open>token_chars\<close>, and stores the text; on any other input it reports an error and leaves
  the destination as it was, which is what \<^verbatim>\<open>encoding/json\<close> does on input that is not
  JSON. The instances below use it on such inputs only. The clock advances by a second
  at every reading, a \<^verbatim>\<open>range\<close> visits a map in the order written, and the upstream
  answers every request with the given lines and then ends the stream.
\<close>

definition token_chars :: string where
  "token_chars = ''abcdefghijklmnopqrstuvwxyzABCDEFGHIJKLMNOPQRSTUVWXYZ0123456789 !?.,''"

definition decode_flat :: "string \<Rightarrow> YouChatResponse \<Rightarrow> bool \<times> YouChatResponse" where
  \<open>decode_flat bytes dest =
     (let opening = ''{"youChatToken":"'';
          closing = ''"}'';
          text = take (length bytes - length opening - length closing) (drop (length opening) bytes)
      in if HasPrefix bytes opening \<and> length opening + length closing \<le> length bytes
            \<and> drop (length bytes - length closing) bytes = closing
            \<and> list_all (\<lambda>c. c \<in> set token_chars) text
         then (False, dest\<lparr>YouChatToken := text\<rparr>)
         else (True, dest))\<close>

definition sample_env :: "string list \<Rightarrow> Env" where
  "sample_env body =
     \<lparr>Unmarshal = decode_flat,
      Now_Unix = (\<lambda>n. int n),
      range_map = (\<lambda>m. m),
      client_Do = (\<lambda>req. DoResponse body False)\<rparr>"

section \<open>Steps of the scanner and of each scanning loop\<close>

lemma HasPrefix_append [simp]: "HasPrefix (p @ s) p"
  by (simp add: HasPrefix_def)

lemma HasPrefix_Nil_iff [simp]: "HasPrefix [] p \<longleftrightarrow> p = []"
  by (auto simp: HasPrefix_def)

lemma markers_nonempty [simp]: "token_event \<noteq> []" "data_prefix \<noteq> []"
  by (simp_all add: token_event_def data_prefix_def)

lemma TrimPrefix_append [simp]: "TrimPrefix (p @ s) p = s"
  by (simp add: TrimPrefix_def)

lemma TrimPrefix_Nil [simp]: "TrimPrefix [] p = []"
  by (simp add: TrimPrefix_def)

lemma Scan_Nil:
  "Scan \<lparr>pending = [], ends_in_error = e, Text = t, Err = r\<rparr> =
   (False, \<lparr>pending = [], ends_in_error = e, Text = [], Err = e\<rparr>)"
  by (simp add: Scan_def)

lemma Scan_Cons:
  "Scan \<lparr>pending = l # ls, ends_in_error = e, Text = t, Err = r\<rparr> =
   (True, \<lparr>pending = ls, ends_in_error = e, Text = l, Err = r\<rparr>)"
  by (simp add: Scan_def)

lemma nonStreaming_done:
  "nonStreamingLoop env \<lparr>pending = [], ends_in_error = e, Text = t, Err = r\<rparr> acc =
   (\<lparr>pending = [], ends_in_error = e, Text = [], Err = e\<rparr>, acc)"
  by (subst nonStreamingLoop.simps) (simp add: Scan_Nil)

lemma nonStreaming_other:
  "\<not> HasPrefix l token_event \<Longrightarrow>
   nonStreamingLoop env \<lparr>pending = l # ls, ends_in_error = e, Text = t, Err = r\<rparr> acc =
   nonStreamingLoop env \<lparr>pending = ls, ends_in_error = e, Text = l, Err = r\<rparr> acc"
  by (subst nonStreamingLoop.simps) (simp add: Scan_Cons)

lemma nonStreaming_token:
  "HasPrefix m token_event \<Longrightarrow> HasPrefix d data_prefix \<Longrightarrow> \<not> fst (decoded env d) \<Longrightarrow>
   nonStreamingLoop env \<lparr>pending = m # d # ls, ends_in_error = e, Text = t, Err = r\<rparr> acc =
   nonStreamingLoop env \<lparr>pending = ls, ends_in_error = e, Text = d, Err = r\<rparr>
     (acc @ YouChatToken (snd (decoded env d)))"
  by (subst nonStreamingLoop.simps) (simp add: Scan_Cons decoded_def Let_def)

lemma nonStreaming_drop:
  "HasPrefix m token_event \<Longrightarrow> \<not> (HasPrefix d data_prefix \<and> \<not> fst (decoded env d)) \<Longrightarrow>
   nonStreamingLoop env \<lparr>pending = m # d # ls, ends_in_error = e, Text = t, Err = r\<rparr> acc =
   nonStreamingLoop env \<lparr>pending = ls, ends_in_error = e, Text = d, Err = r\<rparr> acc"
  by (subst nonStreamingLoop.simps) (auto simp: Scan_Cons decoded_def Let_def)

lemma nonStreaming_truncated:
  "HasPrefix m token_event \<Longrightarrow>
   nonStreamingLoop env \<lparr>pending = [m], ends_in_error = e, Text = t, Err = r\<rparr> acc =
   (\<lparr>pending = [], ends_in_error = e, Text = [], Err = e\<rparr>, acc)"
  by (subst nonStreamingLoop.simps, subst nonStreamingLoop.simps)
     (simp add: Scan_Cons Scan_Nil Let_def data_prefix_def)

lemma Flusher_Write [simp]: "Flusher (snd (Write wr p)) = Flusher wr"
  by (simp add: Write_def WriteHeader_def split: option.split)

lemma Broken_Write [simp]: "Broken (snd (Write wr p)) = Broken wr"
  by (simp add: Write_def WriteHeader_def split: option.split)

lemma Written_Write [simp]: "\<not> Broken wr \<Longrightarrow> Written (snd (Write wr p)) = Written wr @ [p]"
  by (simp add: Write_def WriteHeader_def split: option.split)

lemma Write_ok [simp]: "\<not> Broken wr \<Longrightarrow> \<not> fst (Write wr p)"
  by (simp add: Write_def)

lemma Header_Set_simps [simp]:
  "Flusher (Header_Set wr k v) = Flusher wr"
  "Broken (Header_Set wr k v) = Broken wr"
  "Status (Header_Set wr k v) = Status wr"
  "Written (Header_Set wr k v) = Written wr"
  by (simp_all add: Header_Set_def)

lemma cors_simps [simp]:
  "Flusher (cors wr ms) = Flusher wr"
  "Broken (cors wr ms) = Broken wr"
  "Status (cors wr ms) = Status wr"
  "Written (cors wr ms) = Written wr"
  by (simp_all add: cors_def)

lemma emit_simps [simp]:
  "Flusher (w (emit env s token)) = Flusher (w s)"
  "Broken (w (emit env s token)) = Broken (w s)"
  "sent (emit env s token) = sent s"
  "originalModel (emit env s token) = originalModel s"
  "ticks (emit env s token) = ticks s + 2"
  by (simp_all add: emit_def)

lemma Written_emit [simp]:
  "\<not> Broken (w s) \<Longrightarrow>
   Written (w (emit env s token)) = Written (w s) @ [ChunkEvent (streamChunk env s token)]"
  by (simp add: emit_def)

lemma delta_texts_streamChunk [simp]:
  "delta_texts (streamChunk env s token) = [YouChatToken token]"
  by (simp add: delta_texts_def streamChunk_def)

lemma streaming_done:
  "streamingLoop env \<lparr>pending = [], ends_in_error = e, Text = t, Err = r\<rparr> s = Return s"
  by (subst streamingLoop.simps) (simp add: Scan_Nil)

lemma streaming_other:
  "\<not> HasPrefix l token_event \<Longrightarrow>
   streamingLoop env \<lparr>pending = l # ls, ends_in_error = e, Text = t, Err = r\<rparr> s =
   streamingLoop env \<lparr>pending = ls, ends_in_error = e, Text = l, Err = r\<rparr> s"
  by (subst streamingLoop.simps) (simp add: Scan_Cons)

lemma streaming_event:
  "HasPrefix m token_event \<Longrightarrow> Flusher (w s) \<Longrightarrow>
   streamingLoop env \<lparr>pending = m # d # ls, ends_in_error = e, Text = t, Err = r\<rparr> s =
   streamingLoop env \<lparr>pending = ls, ends_in_error = e, Text = d, Err = r\<rparr>
     (emit env s (snd (decoded env d)))"
  by (subst streamingLoop.simps) (simp add: Scan_Cons decoded_def Let_def emit_def)

lemma streaming_truncated:
  "HasPrefix m token_event \<Longrightarrow> Flusher (w s) \<Longrightarrow>
   streamingLoop env \<lparr>pending = [m], ends_in_error = e, Text = t, Err = r\<rparr> s =
   Return (emit env s (snd (Unmarshal env [] zero_token)))"
  by (subst streamingLoop.simps, subst streamingLoop.simps)
     (simp add: Scan_Cons Scan_Nil Let_def emit_def)

lemma nonStreaming_result:
  assumes "client_Do env youReq = DoResponse body e"
    and "nonStreamingLoop env (NewScanner body e) [] = (sc, full)"
    and "\<not> Err sc" and "\<not> Broken (w s)"
  shows "handleNonStreamingResponse env s youReq =
         Return (s\<lparr>sent := sent s @ [youReq], ticks := ticks s + 2,
                   w := snd (Write (Header_Set (w s) ''Content-Type'' ''application/json'')
                              (ChatCompletion (completion env s full)))\<rparr>)"
  using assms by (simp add: handleNonStreamingResponse_def Let_def completion_def)

section \<open>Properties of the model table\<close>

lemma distinct_modelMap_keys: "distinct (map fst modelMap)"
  by code_simp

lemma distinct_modelMap_values: "distinct (map snd modelMap)"
  by code_simp

lemma reverse_fold_miss:
  "v \<notin> snd ` set xs \<Longrightarrow> foldl reverse_put m xs v = m v"
  by (induction xs arbitrary: m) (auto simp: reverse_put_def)

lemma reverse_fold_hit:
  "distinct (map snd xs) \<Longrightarrow> (k, v) \<in> set xs \<Longrightarrow> foldl reverse_put m xs v = Some k"
proof (induction xs arbitrary: m)
  case Nil
  then show ?case by simp
next
  case (Cons x xs)
  show ?case
  proof (cases "x = (k, v)")
    case True
    with Cons.prems have "v \<notin> snd ` set xs" by auto
    then have "foldl reverse_put (reverse_put m (k, v)) xs v = reverse_put m (k, v) v"
      by (rule reverse_fold_miss)
    moreover have "reverse_put m (k, v) v = Some k" by (simp add: reverse_put_def)
    ultimately show ?thesis using True by simp
  next
    case False
    with Cons.prems have "distinct (map snd xs)" "(k, v) \<in> set xs" by auto
    then have "foldl reverse_put (reverse_put m x) xs v = Some k" by (rule Cons.IH)
    then show ?thesis by simp
  qed
qed

lemma visit_set: "mset visit = mset modelMap \<Longrightarrow> set visit = set modelMap"
  by (rule mset_eq_setD)

lemma visit_distinct_values:
  assumes "mset visit = mset modelMap"
  shows "distinct (map snd visit)"
proof -
  from assms have "mset (map snd visit) = mset (map snd modelMap)" by simp
  then show ?thesis
    using distinct_modelMap_values by (metis mset_eq_imp_distinct_iff)
qed

lemma getReverseModelMap_entry:
  assumes "mset visit = mset modelMap" and "(k, v) \<in> set modelMap"
  shows "getReverseModelMap visit v = Some k"
proof -
  from assms have "(k, v) \<in> set visit" using visit_set by blast
  with visit_distinct_values [OF assms(1)] show ?thesis
    unfolding getReverseModelMap_def by (rule reverse_fold_hit)
qed

lemma getReverseModelMap_miss:
  assumes "mset visit = mset modelMap" and "v \<notin> snd ` set modelMap"
  shows "getReverseModelMap visit v = None"
proof -
  from assms have "v \<notin> snd ` set visit" using visit_set by blast
  then have "foldl reverse_put Map.empty visit v = Map.empty v" by (rule reverse_fold_miss)
  then show ?thesis by (simp add: getReverseModelMap_def)
qed

lemma mapModelName_entry: "(k, v) \<in> set modelMap \<Longrightarrow> mapModelName k = v"
  unfolding mapModelName_def using distinct_modelMap_keys by simp

lemma roundtrip_entry:
  "mset visit = mset modelMap \<Longrightarrow> (k, v) \<in> set modelMap \<Longrightarrow>
   reverseMapModelName visit (mapModelName k) = k"
  by (simp add: mapModelName_entry reverseMapModelName_def getReverseModelMap_entry)

text \<open>
  C5. Whatever order the iteration over the table takes, every client model name \<open>k\<close> of
  the forward table is returned unchanged by the round trip through \<open>mapModelName\<close>
  and \<open>reverseMapModelName\<close>: no two entries share an upstream name, so no entry is
  overwritten in the reverse table.
\<close>

theorem model_roundtrip:
  assumes "mset visit = mset modelMap" and "k \<in> fst ` set modelMap"
  shows "reverseMapModelName visit (mapModelName k) = k"
proof -
  from assms(2) obtain v where "(k, v) \<in> set modelMap" by auto
  with assms(1) show ?thesis by (rule roundtrip_entry)
qed

theorem model_roundtrip_witness:
  "mset modelMap = mset modelMap \<and> ''gpt-4o'' \<in> fst ` set modelMap \<and>
   reverseMapModelName modelMap (mapModelName ''gpt-4o'') = ''gpt-4o''"
proof -
  have k: "''gpt-4o'' \<in> fst ` set modelMap"
    unfolding set_map [symmetric] by code_simp
  from k model_roundtrip [OF refl k] show ?thesis by (intro conjI refl)
qed

text \<open>
  C6. Both translations are total functions with a silent default: a client name that is
  not a key of the table maps to \<open>deepseek_v3\<close>, and an upstream name that is not a
  value of the table maps back to \<open>deepseek-chat\<close>, whatever the iteration order.
\<close>

theorem model_defaults:
  "(k \<notin> fst ` set modelMap \<longrightarrow> mapModelName k = ''deepseek_v3'') \<and>
   (mset visit = mset modelMap \<longrightarrow> v \<notin> snd ` set modelMap \<longrightarrow>
      reverseMapModelName visit v = ''deepseek-chat'')"
proof (intro conjI impI)
  assume "k \<notin> fst ` set modelMap"
  then have "map_of modelMap k = None" by (simp add: map_of_eq_None_iff)
  then show "mapModelName k = ''deepseek_v3''" by (simp add: mapModelName_def)
next
  assume "mset visit = mset modelMap" "v \<notin> snd ` set modelMap"
  then show "reverseMapModelName visit v = ''deepseek-chat''"
    by (simp add: reverseMapModelName_def getReverseModelMap_miss)
qed

theorem model_defaults_witness:
  "''gpt-5'' \<notin> fst ` set modelMap \<and> mapModelName ''gpt-5'' = ''deepseek_v3'' \<and>
   mset modelMap = mset modelMap \<and> ''gpt_5'' \<notin> snd ` set modelMap \<and>
   reverseMapModelName modelMap ''gpt_5'' = ''deepseek-chat''"
proof -
  have k: "''gpt-5'' \<notin> fst ` set modelMap"
    unfolding set_map [symmetric] by code_simp
  have v: "''gpt_5'' \<notin> snd ` set modelMap"
    unfolding set_map [symmetric] by code_simp
  from model_defaults [of "''gpt-5''" modelMap "''gpt_5''"] k v
  have "mapModelName ''gpt-5'' = ''deepseek_v3''"
    and "reverseMapModelName modelMap ''gpt_5'' = ''deepseek-chat''"
    by blast+
  with k v show ?thesis by (intro conjI refl)
qed

section \<open>The sample environment\<close>

lemma decode_flat_Hel:
  \<open>decode_flat ''{"youChatToken":"Hel"}'' zero_token = (False, \<lparr>YouChatToken = ''Hel''\<rparr>)\<close>
  by (simp add: decode_flat_def zero_token_def HasPrefix_def token_chars_def)

lemma decode_flat_lo:
  \<open>decode_flat ''{"youChatToken":"lo!"}'' zero_token = (False, \<lparr>YouChatToken = ''lo!''\<rparr>)\<close>
  by (simp add: decode_flat_def zero_token_def HasPrefix_def token_chars_def)

lemma decode_flat_bad: \<open>decode_flat ''{nope'' zero_token = (True, zero_token)\<close>
  by (simp add: decode_flat_def HasPrefix_def)

lemma decode_flat_Nil: \<open>decode_flat [] zero_token = (True, zero_token)\<close>
  by (simp add: decode_flat_def HasPrefix_def)

lemma sample_env_simps [simp]:
  "Unmarshal (sample_env body) = decode_flat"
  "Now_Unix (sample_env body) = int"
  "range_map (sample_env body) = (\<lambda>m. m)"
  "client_Do (sample_env body) req = DoResponse body False"
  by (simp_all add: sample_env_def)

lemma new_world_simps [simp]:
  "w new_world = new_writer" "sent new_world = []" "ticks new_world = 0"
  "originalModel new_world = []"
  by (simp_all add: new_world_def)

lemma new_writer_simps [simp]:
  "Flusher new_writer" "\<not> Broken new_writer" "Status new_writer = None"
  "Written new_writer = []"
  by (simp_all add: new_writer_def)

lemma decoded_sample_Hel:
  \<open>decoded (sample_env body) ''data: {"youChatToken":"Hel"}'' = (False, \<lparr>YouChatToken = ''Hel''\<rparr>)\<close>
  using decode_flat_Hel by (simp add: decoded_def data_prefix_def TrimPrefix_def HasPrefix_def)

lemma decoded_sample_lo:
  \<open>decoded (sample_env body) ''data: {"youChatToken":"lo!"}'' = (False, \<lparr>YouChatToken = ''lo!''\<rparr>)\<close>
  using decode_flat_lo by (simp add: decoded_def data_prefix_def TrimPrefix_def HasPrefix_def)

lemma decoded_sample_bad:
  \<open>decoded (sample_env body) ''data: {nope'' = (True, zero_token)\<close>
  using decode_flat_bad by (simp add: decoded_def data_prefix_def TrimPrefix_def HasPrefix_def)

lemma marker_is_event: "HasPrefix ''event: youChatToken'' token_event"
  by (simp add: HasPrefix_def token_event_def)

lemma data_lines_prefixed:
  \<open>HasPrefix ''data: {"youChatToken":"Hel"}'' data_prefix\<close>
  \<open>HasPrefix ''data: {"youChatToken":"lo!"}'' data_prefix\<close>
  \<open>HasPrefix ''data: {nope'' data_prefix\<close>
  by (simp_all add: HasPrefix_def data_prefix_def)

section \<open>The history projection\<close>

lemma buildChatHistory_map: "buildChatHistory msgs acc = acc @ map chatMsg_of msgs"
  by (induction msgs arbitrary: acc) simp_all

lemma chatMsg_of_cases:
  "chatMsg_of msg =
     (if Role msg = ''assistant'' then \<lparr>question = [], answer = Content msg\<rparr>
      else \<lparr>question = Content msg, answer = []\<rparr>)"
  by (simp add: chatMsg_of_def)

text \<open>
  C2, as the code has it. The history has the length and the order of the messages; a
  message with role \<open>assistant\<close> becomes a record with empty question and the content as
  answer, any other message a record with the content as question and empty answer. The
  field that carries the content is fixed by the role alone. Exactly one of the two fields
  is non-empty when the content is non-empty; a message with empty content gives a record
  with both fields empty.
\<close>

theorem history_projection:
  "length (buildChatHistory msgs []) = length msgs \<and>
   (\<forall>i < length msgs.
      buildChatHistory msgs [] ! i =
        (if Role (msgs ! i) = ''assistant''
         then \<lparr>question = [], answer = Content (msgs ! i)\<rparr>
         else \<lparr>question = Content (msgs ! i), answer = []\<rparr>) \<and>
      (Content (msgs ! i) \<noteq> [] \<longrightarrow>
         (question (buildChatHistory msgs [] ! i) \<noteq> []) \<noteq>
         (answer (buildChatHistory msgs [] ! i) \<noteq> [])) \<and>
      (Content (msgs ! i) = [] \<longrightarrow>
         question (buildChatHistory msgs [] ! i) = [] \<and>
         answer (buildChatHistory msgs [] ! i) = []))"
  by (simp add: buildChatHistory_map chatMsg_of_cases)

theorem history_projection_witness:
  "length (buildChatHistory
     [\<lparr>Role = ''user'', Content = ''Hi''\<rparr>, \<lparr>Role = ''assistant'', Content = ''Hello''\<rparr>] []) = 2 \<and>
   buildChatHistory
     [\<lparr>Role = ''user'', Content = ''Hi''\<rparr>, \<lparr>Role = ''assistant'', Content = ''Hello''\<rparr>] [] ! 0
     = \<lparr>question = ''Hi'', answer = []\<rparr> \<and>
   buildChatHistory
     [\<lparr>Role = ''user'', Content = ''Hi''\<rparr>, \<lparr>Role = ''assistant'', Content = ''Hello''\<rparr>] [] ! 1
     = \<lparr>question = [], answer = ''Hello''\<rparr>"
proof -
  let ?msgs = "[\<lparr>Role = ''user'', Content = ''Hi''\<rparr>, \<lparr>Role = ''assistant'', Content = ''Hello''\<rparr>]"
  note h = history_projection [of ?msgs]
  from h have at: "\<And>i. i < length ?msgs \<Longrightarrow>
      buildChatHistory ?msgs [] ! i =
        (if Role (?msgs ! i) = ''assistant''
         then \<lparr>question = [], answer = Content (?msgs ! i)\<rparr>
         else \<lparr>question = Content (?msgs ! i), answer = []\<rparr>)"
    by blast
  from h have "length (buildChatHistory ?msgs []) = 2" by simp
  moreover from at [of 0] have "buildChatHistory ?msgs [] ! 0 = \<lparr>question = ''Hi'', answer = []\<rparr>"
    by simp
  moreover from at [of 1] have "buildChatHistory ?msgs [] ! 1 = \<lparr>question = [], answer = ''Hello''\<rparr>"
    by simp
  ultimately show ?thesis by (intro conjI)
qed

text \<open>
  C2 as stated fails on a message with empty content: neither field of its record is
  non-empty.
\<close>

theorem history_empty_content_counterexample:
  "\<not> ((question (buildChatHistory [\<lparr>Role = ''user'', Content = []\<rparr>] [] ! 0) \<noteq> []) \<noteq>
      (answer (buildChatHistory [\<lparr>Role = ''user'', Content = []\<rparr>] [] ! 0) \<noteq> []))"
  by (simp add: chatMsg_of_def)

section \<open>The buffering assembler\<close>

text \<open>
  C3. The upstream body is a well-formed token event, then a marker line whose data line
  lacks the \<^verbatim>\<open>data: \<close> prefix or does not decode, then another well-formed token event,
  and the stream ends without a read error. The handler returns, and what it writes to a
  working connection is one completion, the response built from the buffered text, whose
  single choice is the assistant message with content the text of the first token followed
  by the text of the third record's token, and finish reason \<open>stop\<close>: the malformed
  record adds nothing and does not abort the operation.
\<close>

theorem buffering_drops_malformed:
  assumes "client_Do env youReq = DoResponse [m1, d1, m2, bad, m3, d3] False"
    and "well_formed env (TokenEvent m1 d1)"
    and "HasPrefix m2 token_event"
    and "\<not> HasPrefix bad data_prefix \<or> fst (decoded env bad)"
    and "well_formed env (TokenEvent m3 d3)"
    and "\<not> Broken (w s)"
  shows "\<exists>s' resp.
           handleNonStreamingResponse env s youReq = Return s' \<and>
           Written (w s') = Written (w s) @ [ChatCompletion resp] \<and>
           resp = completion env s
                    (YouChatToken (snd (decoded env d1)) @ YouChatToken (snd (decoded env d3))) \<and>
           Response_Choices resp =
             [\<lparr>OpenAIChoice_Message =
                  \<lparr>Role = ''assistant'',
                     Content = YouChatToken (snd (decoded env d1)) @
                               YouChatToken (snd (decoded env d3))\<rparr>,
                OpenAIChoice_Index = 0, OpenAIChoice_FinishReason = ''stop''\<rparr>]"
proof -
  let ?full = "YouChatToken (snd (decoded env d1)) @ YouChatToken (snd (decoded env d3))"
  from assms(4) have bad: "\<not> (HasPrefix bad data_prefix \<and> \<not> fst (decoded env bad))" by blast
  have "nonStreamingLoop env (NewScanner [m1, d1, m2, bad, m3, d3] False) [] =
        (\<lparr>pending = [], ends_in_error = False, Text = [], Err = False\<rparr>, ?full)"
    using assms(2,3,5) bad
    by (simp add: NewScanner_def nonStreaming_token nonStreaming_drop nonStreaming_done)
  from nonStreaming_result [OF assms(1) this _ assms(6)] assms(6)
  have "\<exists>s'. handleNonStreamingResponse env s youReq = Return s' \<and>
          Written (w s') = Written (w s) @ [ChatCompletion (completion env s ?full)]"
    by simp
  moreover have "Response_Choices (completion env s ?full) =
      [\<lparr>OpenAIChoice_Message = \<lparr>Role = ''assistant'', Content = ?full\<rparr>,
         OpenAIChoice_Index = 0, OpenAIChoice_FinishReason = ''stop''\<rparr>]"
    by (simp add: completion_def)
  ultimately show ?thesis by blast
qed

theorem buffering_drops_malformed_witness:
  \<open>\<exists>s' resp. handleNonStreamingResponse
     (sample_env [''event: youChatToken'', ''data: {"youChatToken":"Hel"}'',
                  ''event: youChatToken'', ''data: {nope'',
                  ''event: youChatToken'', ''data: {"youChatToken":"lo!"}''])
     new_world \<lparr>Req_Method = ''GET'', Req_URL = [], Req_Query = [], Req_Header = []\<rparr>
     = Return s' \<and>
     Written (w s') = [ChatCompletion resp] \<and>
     resp = completion
          (sample_env [''event: youChatToken'', ''data: {"youChatToken":"Hel"}'',
                       ''event: youChatToken'', ''data: {nope'',
                       ''event: youChatToken'', ''data: {"youChatToken":"lo!"}''])
          new_world ''Hello!'' \<and>
     Response_Choices resp =
       [\<lparr>OpenAIChoice_Message = \<lparr>Role = ''assistant'', Content = ''Hello!''\<rparr>,
          OpenAIChoice_Index = 0, OpenAIChoice_FinishReason = ''stop''\<rparr>]\<close>
proof -
  let ?body = \<open>[''event: youChatToken'', ''data: {"youChatToken":"Hel"}'',
                ''event: youChatToken'', ''data: {nope'',
                ''event: youChatToken'', ''data: {"youChatToken":"lo!"}'']\<close>
  let ?req = "\<lparr>Req_Method = ''GET'', Req_URL = [], Req_Query = [], Req_Header = []\<rparr>"
  have 1: "client_Do (sample_env ?body) ?req = DoResponse ?body False" by simp
  have 2: \<open>well_formed (sample_env ?body)
             (TokenEvent ''event: youChatToken'' ''data: {"youChatToken":"Hel"}'')\<close>
    by (simp add: marker_is_event data_lines_prefixed decoded_sample_Hel)
  have 3: "HasPrefix ''event: youChatToken'' token_event" by (rule marker_is_event)
  have 4: "\<not> HasPrefix ''data: {nope'' data_prefix \<or> fst (decoded (sample_env ?body) ''data: {nope'')"
    by (simp add: decoded_sample_bad)
  have 5: \<open>well_formed (sample_env ?body)
             (TokenEvent ''event: youChatToken'' ''data: {"youChatToken":"lo!"}'')\<close>
    by (simp add: marker_is_event data_lines_prefixed decoded_sample_lo)
  have 6: "\<not> Broken (w new_world)" by simp
  from buffering_drops_malformed [OF 1 2 3 4 5 6]
  show ?thesis by (simp add: decoded_sample_Hel decoded_sample_lo)
qed

section \<open>The streaming assembler\<close>

lemma frame_Cons [simp]: "frame (it # items) = item_lines it @ frame items"
  by (simp add: frame_def)

lemma frame_Nil [simp]: "frame [] = []"
  by (simp add: frame_def)





section \<open>Malformed and truncated records\<close>

lemma streamChunk_cong [simp]:
  "streamChunk env (s\<lparr>sent := x\<rparr>) token = streamChunk env s token"
  "streamChunk env (s\<lparr>w := y\<rparr>) token = streamChunk env s token"
  by (simp_all add: streamChunk_def)

lemma streaming_run:
  assumes "client_Do env youReq = DoResponse body e"
  shows "handleStreamingResponse env s youReq =
         streamingLoop env \<lparr>pending = body, ends_in_error = e, Text = [], Err = False\<rparr>
           (s\<lparr>sent := sent s @ [youReq],
              w := Header_Set (Header_Set (Header_Set (w s) ''Content-Type'' ''text/event-stream'')
                     ''Cache-Control'' ''no-cache'') ''Connection'' ''keep-alive''\<rparr>)"
  using assms by (simp add: handleStreamingResponse_def NewScanner_def Let_def)


lemma streaming_dangling:
  assumes "client_Do env youReq = DoResponse [m] e" and "HasPrefix m token_event"
    and "Flusher (w s)" and "\<not> Broken (w s)"
  shows "\<exists>s'. handleStreamingResponse env s youReq = Return s' \<and>
           Written (w s') =
             Written (w s) @ [ChunkEvent (streamChunk env s (snd (Unmarshal env [] zero_token)))]"
  using assms(2-4)
  by (simp add: streaming_run [OF assms(1)] streaming_truncated)


lemma buffering_dangling:
  assumes "client_Do env youReq = DoResponse [m] False" and "HasPrefix m token_event"
    and "\<not> Broken (w s)"
  shows "\<exists>s'. handleNonStreamingResponse env s youReq = Return s' \<and>
           Written (w s') = Written (w s) @ [ChatCompletion (completion env s [])]"
proof -
  from assms(2) have "nonStreamingLoop env (NewScanner [m] False) [] =
        (\<lparr>pending = [], ends_in_error = False, Text = [], Err = False\<rparr>, [])"
    by (simp add: NewScanner_def nonStreaming_truncated)
  from nonStreaming_result [OF assms(1) this _ assms(3)] assms(3)
  show ?thesis by simp
qed

text \<open>
  C8, at the input where the code departs from it. The upstream body is the single marker
  line \<^verbatim>\<open>event: youChatToken\<close> and the stream ends. Both handlers return without a panic.
  The buffering handler writes a completion with empty content: nothing stands for the
  truncated pair. The streaming handler, which does not look at the result of the second
  \<^verbatim>\<open>Scan\<close>, writes one chunk for the truncated pair, with empty delta content.
\<close>

theorem truncated_pair_streaming_chunk:
  "(\<exists>s'. handleNonStreamingResponse (sample_env [''event: youChatToken'']) new_world
            \<lparr>Req_Method = ''GET'', Req_URL = [], Req_Query = [], Req_Header = []\<rparr> = Return s' \<and>
          Written (w s') =
            [ChatCompletion (completion (sample_env [''event: youChatToken'']) new_world [])]) \<and>
   (\<exists>s'. handleStreamingResponse (sample_env [''event: youChatToken'']) new_world
            \<lparr>Req_Method = ''GET'', Req_URL = [], Req_Query = [], Req_Header = []\<rparr> = Return s' \<and>
          Written (w s') =
            [ChunkEvent (streamChunk (sample_env [''event: youChatToken'']) new_world zero_token)]) \<and>
   delta_texts (streamChunk (sample_env [''event: youChatToken'']) new_world zero_token) = [[]]"
proof -
  let ?env = "sample_env [''event: youChatToken'']"
  let ?req = "\<lparr>Req_Method = ''GET'', Req_URL = [], Req_Query = [], Req_Header = []\<rparr>"
  have reply: "client_Do ?env ?req = DoResponse [''event: youChatToken''] False" by simp
  have "\<exists>s'. handleNonStreamingResponse ?env new_world ?req = Return s' \<and>
          Written (w s') = [ChatCompletion (completion ?env new_world [])]"
    using buffering_dangling [OF reply marker_is_event, of new_world] by simp
  moreover have "\<exists>s'. handleStreamingResponse ?env new_world ?req = Return s' \<and>
          Written (w s') = [ChunkEvent (streamChunk ?env new_world zero_token)]"
    using streaming_dangling [OF reply marker_is_event, of new_world]
    by (simp add: decode_flat_Nil)
  moreover have "delta_texts (streamChunk ?env new_world zero_token) = [[]]"
    by (simp add: zero_token_def)
  ultimately show ?thesis by (intro conjI)
qed




section \<open>The handler\<close>

lemma WriteHeader_simps [simp]:
  "Flusher (WriteHeader wr code) = Flusher wr"
  "Broken (WriteHeader wr code) = Broken wr"
  "Written (WriteHeader wr code) = Written wr"
  by (simp_all add: WriteHeader_def split: option.split)

lemma http_Error_simps [simp]:
  "Flusher (http_Error wr msg code) = Flusher wr"
  "Broken (http_Error wr msg code) = Broken wr"
  by (simp_all add: http_Error_def Let_def)



lemma panics_differ: "panic_index \<noteq> panic_not_flusher"
  by (simp add: panic_index_def panic_not_flusher_def)

lemma Handler_chat:
  assumes "chat_route r"
  shows "Handler env r s =
     (if \<not> HasPrefix (Authorization r) ''Bearer ''
      then Return (s\<lparr>w := http_Error (cors (w s) ''GET, POST, OPTIONS'')
                           ''Missing or invalid authorization header'' 401\<rparr>)
      else case Body_Decode r of
             None \<Rightarrow> Return (s\<lparr>w := http_Error (cors (w s) ''GET, POST, OPTIONS'')
                                    ''Invalid request body'' 400\<rparr>)
           | Some openAIReq \<Rightarrow>
               if Messages openAIReq = []
               then Panic panic_index
                      (s\<lparr>w := cors (w s) ''GET, POST, OPTIONS'', originalModel := Model openAIReq\<rparr>)
               else if \<not> Stream openAIReq
               then handleNonStreamingResponse env
                      (s\<lparr>w := cors (w s) ''GET, POST, OPTIONS'', originalModel := Model openAIReq\<rparr>)
                      (buildYouRequest env (TrimPrefix (Authorization r) ''Bearer '') openAIReq
                         (Content (last (Messages openAIReq)))
                         (buildChatHistory (Messages openAIReq) []))
               else handleStreamingResponse env
                      (s\<lparr>w := cors (w s) ''GET, POST, OPTIONS'', originalModel := Model openAIReq\<rparr>)
                      (buildYouRequest env (TrimPrefix (Authorization r) ''Bearer '') openAIReq
                         (Content (last (Messages openAIReq)))
                         (buildChatHistory (Messages openAIReq) [])))"
proof -
  from assms have models: "URL_Path r \<noteq> ''/v1/models''" "URL_Path r \<noteq> ''/api/v1/models''"
    and not_options: "Method r \<noteq> ''OPTIONS''"
    by (auto simp: chat_route_def)
  from assms have not_status:
    "(URL_Path r \<noteq> ''/v1/chat/completions'' \<and> URL_Path r \<noteq> ''/none/v1/chat/completions''
        \<and> URL_Path r \<noteq> ''/such/chat/completions'') \<longleftrightarrow> False"
    by (auto simp: chat_route_def)
  show ?thesis
    unfolding Handler_def
    by (simp only: models not_options not_status if_False Let_def simp_thms)
qed





lemma nonStreaming_returns:
  "\<exists>s'. handleNonStreamingResponse env s youReq = Return s' \<and> sent s' = sent s @ [youReq]"
  by (simp add: handleNonStreamingResponse_def Let_def split: DoResult.split)

lemma streaming_not_flusher:
  assumes "HasPrefix m token_event" and "\<not> Flusher (w s)"
  shows "\<exists>s'. streamingLoop env \<lparr>pending = m # ls, ends_in_error = e, Text = t, Err = r\<rparr> s
           = Panic panic_not_flusher s' \<and> sent s' = sent s"
  using assms
  by (subst streamingLoop.simps) (simp add: Scan_Cons Let_def)

lemma streamingLoop_outcome:
  "sent (world_of (streamingLoop env \<lparr>pending = ls, ends_in_error = e, Text = t, Err = r\<rparr> s))
     = sent s \<and>
   panicked (streamingLoop env \<lparr>pending = ls, ends_in_error = e, Text = t, Err = r\<rparr> s)
     \<noteq> Some panic_index"
proof (induction ls arbitrary: t s rule: induct_list012)
  case 1
  show ?case by (simp add: streaming_done)
next
  case (2 x)
  show ?case
  proof (cases "HasPrefix x token_event")
    case False
    then show ?thesis by (simp add: streaming_other streaming_done)
  next
    case True
    show ?thesis
    proof (cases "Flusher (w s)")
      case True
      with \<open>HasPrefix x token_event\<close> show ?thesis by (simp add: streaming_truncated)
    next
      case False
      from streaming_not_flusher [OF \<open>HasPrefix x token_event\<close> False, of env "[]" e t r]
      show ?thesis using panics_differ by auto
    qed
  qed
next
  case (3 x y zs)
  show ?case
  proof (cases "HasPrefix x token_event")
    case False
    then show ?thesis using "3.IH"(2) [of x s] by (simp add: streaming_other)
  next
    case True
    show ?thesis
    proof (cases "Flusher (w s)")
      case True
      with \<open>HasPrefix x token_event\<close> show ?thesis
        using "3.IH"(1) [of y "emit env s (snd (decoded env y))"]
        by (simp add: streaming_event)
    next
      case False
      from streaming_not_flusher [OF \<open>HasPrefix x token_event\<close> False, of env "y # zs" e t r]
      show ?thesis using panics_differ by auto
    qed
  qed
qed

lemma streaming_outcome:
  "sent (world_of (handleStreamingResponse env s youReq)) = sent s @ [youReq] \<and>
   panicked (handleStreamingResponse env s youReq) \<noteq> Some panic_index"
proof (cases "client_Do env youReq")
  case (DoError msg)
  then show ?thesis by (simp add: handleStreamingResponse_def Let_def)
next
  case (DoResponse body e)
  show ?thesis
    unfolding streaming_run [OF DoResponse]
    using streamingLoop_outcome [of env body e "[]" False] by simp
qed

text \<open>
  C9. For a request on a chat-completion route with a bearer header and a body that decodes:
  when the message list is empty the handler panics on the index, after it has stored the
  model name and before any request goes upstream or anything is written; when the list is
  not empty that panic does not occur, and the handler issues the one upstream request
  built from the last message and the history of all messages.
\<close>

theorem empty_messages_panic:
  assumes "chat_route r" and "HasPrefix (Authorization r) ''Bearer ''"
    and "Body_Decode r = Some openAIReq"
  shows "(Messages openAIReq = [] \<longrightarrow>
            Handler env r s =
              Panic panic_index
                (s\<lparr>w := cors (w s) ''GET, POST, OPTIONS'', originalModel := Model openAIReq\<rparr>)) \<and>
         (Messages openAIReq \<noteq> [] \<longrightarrow>
            panicked (Handler env r s) \<noteq> Some panic_index \<and>
            sent (world_of (Handler env r s)) =
              sent s @ [buildYouRequest env (TrimPrefix (Authorization r) ''Bearer '') openAIReq
                          (Content (last (Messages openAIReq)))
                          (buildChatHistory (Messages openAIReq) [])])"
proof (intro conjI impI)
  assume "Messages openAIReq = []"
  with assms show "Handler env r s =
      Panic panic_index
        (s\<lparr>w := cors (w s) ''GET, POST, OPTIONS'', originalModel := Model openAIReq\<rparr>)"
    by (simp add: Handler_chat)
next
  let ?s1 = "s\<lparr>w := cors (w s) ''GET, POST, OPTIONS'', originalModel := Model openAIReq\<rparr>"
  let ?req = "buildYouRequest env (TrimPrefix (Authorization r) ''Bearer '') openAIReq
                (Content (last (Messages openAIReq))) (buildChatHistory (Messages openAIReq) [])"
  assume nonempty: "Messages openAIReq \<noteq> []"
  have "panicked (Handler env r s) \<noteq> Some panic_index \<and>
        sent (world_of (Handler env r s)) = sent s @ [?req]"
  proof (cases "Stream openAIReq")
    case True
    with assms nonempty have "Handler env r s = handleStreamingResponse env ?s1 ?req"
      by (simp add: Handler_chat)
    with streaming_outcome [of env ?s1 ?req] show ?thesis by simp
  next
    case False
    with assms nonempty have "Handler env r s = handleNonStreamingResponse env ?s1 ?req"
      by (simp add: Handler_chat)
    with nonStreaming_returns [of env ?s1 ?req] show ?thesis by auto
  qed
  then show "panicked (Handler env r s) \<noteq> Some panic_index"
    and "sent (world_of (Handler env r s)) = sent s @ [?req]"
    by simp_all
qed

theorem empty_messages_panic_witness:
  "Handler (sample_env [])
     \<lparr>URL_Path = ''/v1/chat/completions'', Method = ''POST'', Authorization = ''Bearer abc'',
        Body_Decode = Some \<lparr>Messages = [], Stream = False, Model = ''gpt-4o''\<rparr>\<rparr> new_world
   = Panic panic_index
       (new_world\<lparr>w := cors new_writer ''GET, POST, OPTIONS'', originalModel := ''gpt-4o''\<rparr>) \<and>
   panicked (Handler (sample_env [])
     \<lparr>URL_Path = ''/v1/chat/completions'', Method = ''POST'', Authorization = ''Bearer abc'',
        Body_Decode = Some \<lparr>Messages = [\<lparr>Role = ''user'', Content = ''Hi''\<rparr>], Stream = False,
                              Model = ''gpt-4o''\<rparr>\<rparr> new_world) \<noteq> Some panic_index"
proof -
  let ?r0 = "\<lparr>URL_Path = ''/v1/chat/completions'', Method = ''POST'',
               Authorization = ''Bearer abc'',
               Body_Decode = Some \<lparr>Messages = [], Stream = False, Model = ''gpt-4o''\<rparr>\<rparr>"
  let ?r1 = "\<lparr>URL_Path = ''/v1/chat/completions'', Method = ''POST'',
               Authorization = ''Bearer abc'',
               Body_Decode = Some \<lparr>Messages = [\<lparr>Role = ''user'', Content = ''Hi''\<rparr>],
                                     Stream = False, Model = ''gpt-4o''\<rparr>\<rparr>"
  have route: "chat_route ?r0" "chat_route ?r1" by (simp_all add: chat_route_def)
  have bearer: "HasPrefix (Authorization ?r0) ''Bearer ''" "HasPrefix (Authorization ?r1) ''Bearer ''"
    by (simp_all add: HasPrefix_def)
  from empty_messages_panic [OF route(1) bearer(1), of _ "sample_env []" new_world]
  have "Handler (sample_env []) ?r0 new_world
      = Panic panic_index
          (new_world\<lparr>w := cors new_writer ''GET, POST, OPTIONS'', originalModel := ''gpt-4o''\<rparr>)"
    by simp
  moreover from empty_messages_panic [OF route(2) bearer(2), of _ "sample_env []" new_world]
  have "panicked (Handler (sample_env []) ?r1 new_world) \<noteq> Some panic_index"
    by simp
  ultimately show ?thesis by (intro conjI)
qed

section \<open>The end-to-end example\<close>

lemma Sprintf_d_0: "Sprintf_d 0 = ''0''"
  by (simp add: Sprintf_d_def, subst digits.simps) (simp add: digit_def)

lemma gpt_4o_entry: "(''gpt-4o'', ''gpt_4o'') \<in> set modelMap"
  by (simp add: modelMap_def)

lemma completion_fields [simp]:
  "Response_Model (completion env s full) =
     reverseMapModelName (range_map env modelMap) (mapModelName (originalModel s))"
  "Response_Choices (completion env s full) =
     [\<lparr>OpenAIChoice_Message = \<lparr>Role = ''assistant'', Content = full\<rparr>,
        OpenAIChoice_Index = 0, OpenAIChoice_FinishReason = ''stop''\<rparr>]"
  by (simp_all add: completion_def)

lemma completion_cong [simp]:
  "completion env (s\<lparr>w := y\<rparr>) full = completion env s full"
  "completion env (s\<lparr>sent := x\<rparr>) full = completion env s full"
  by (simp_all add: completion_def)

text \<open>
  C1. The request carries the one message \<open>user: Hi\<close>, the model \<open>gpt-4o\<close> and
  \<open>stream = false\<close>, on a chat-completion route with a bearer header. The upstream answers
  with the two token events for \<open>Hel\<close> and \<open>lo!\<close>, which the decoder reads as JSON says,
  and ends the stream. Then the handler returns, the one upstream request has
  \<open>selectedAiModel = gpt_4o\<close>, the history \<open>[{question: Hi, answer: ""}]\<close> as \<open>chat\<close>
  and \<open>pastChatLength = 0\<close>, and the response written to a working connection is one
  completion with model \<open>gpt-4o\<close> and the single choice with content \<open>Hello!\<close> and
  finish reason \<open>stop\<close>.
\<close>

theorem end_to_end_example:
  assumes "mset (range_map env modelMap) = mset modelMap"
    and \<open>\<And>req. client_Do env req =
           DoResponse [''event: youChatToken'', ''data: {"youChatToken":"Hel"}'',
                       ''event: youChatToken'', ''data: {"youChatToken":"lo!"}''] False\<close>
    and \<open>Unmarshal env ''{"youChatToken":"Hel"}'' zero_token = (False, \<lparr>YouChatToken = ''Hel''\<rparr>)\<close>
    and \<open>Unmarshal env ''{"youChatToken":"lo!"}'' zero_token = (False, \<lparr>YouChatToken = ''lo!''\<rparr>)\<close>
    and "chat_route r" and "HasPrefix (Authorization r) ''Bearer ''"
    and "Body_Decode r =
           Some \<lparr>Messages = [\<lparr>Role = ''user'', Content = ''Hi''\<rparr>], Stream = False,
                  Model = ''gpt-4o''\<rparr>"
    and "\<not> Broken (w s)"
  shows "\<exists>s' youReq resp.
           Handler env r s = Return s' \<and>
           sent s' = sent s @ [youReq] \<and>
           map_of (Req_Query youReq) ''selectedAiModel'' = Some (QString ''gpt_4o'') \<and>
           map_of (Req_Query youReq) ''chat'' = Some (QJson [\<lparr>question = ''Hi'', answer = []\<rparr>]) \<and>
           map_of (Req_Query youReq) ''pastChatLength'' = Some (QString ''0'') \<and>
           Written (w s') = Written (w s) @ [ChatCompletion resp] \<and>
           Response_Model resp = ''gpt-4o'' \<and>
           Response_Choices resp =
             [\<lparr>OpenAIChoice_Message = \<lparr>Role = ''assistant'', Content = ''Hello!''\<rparr>,
                OpenAIChoice_Index = 0, OpenAIChoice_FinishReason = ''stop''\<rparr>]"
proof -
  let ?openAIReq = "\<lparr>Messages = [\<lparr>Role = ''user'', Content = ''Hi''\<rparr>], Stream = False,
                      Model = ''gpt-4o''\<rparr>"
  let ?d1 = \<open>''data: {"youChatToken":"Hel"}''\<close>
  let ?d2 = \<open>''data: {"youChatToken":"lo!"}''\<close>
  let ?body = "[''event: youChatToken'', ?d1, ''event: youChatToken'', ?d2]"
  let ?s1 = "s\<lparr>w := cors (w s) ''GET, POST, OPTIONS'', originalModel := ''gpt-4o''\<rparr>"
  let ?youReq = "buildYouRequest env (TrimPrefix (Authorization r) ''Bearer '') ?openAIReq
                   ''Hi'' [\<lparr>question = ''Hi'', answer = []\<rparr>]"
  let ?resp = "completion env ?s1 ''Hello!''"
  have run: "Handler env r s = handleNonStreamingResponse env ?s1 ?youReq"
    using assms(5-7) by (simp add: Handler_chat chatMsg_of_def)
  have dec: "decoded env ?d1 = (False, \<lparr>YouChatToken = ''Hel''\<rparr>)"
    "decoded env ?d2 = (False, \<lparr>YouChatToken = ''lo!''\<rparr>)"
    using assms(3,4) by (simp_all add: decoded_def data_prefix_def TrimPrefix_def HasPrefix_def)
  have loop: "nonStreamingLoop env (NewScanner ?body False) [] =
        (\<lparr>pending = [], ends_in_error = False, Text = [], Err = False\<rparr>, ''Hello!'')"
    by (simp add: NewScanner_def nonStreaming_token nonStreaming_done marker_is_event
          data_lines_prefixed dec)
  have broken: "\<not> Broken (w ?s1)" using assms(8) by simp
  from nonStreaming_result [OF assms(2) loop _ broken]
  have out: "Handler env r s =
      Return (?s1\<lparr>sent := sent ?s1 @ [?youReq], ticks := ticks ?s1 + 2,
                  w := snd (Write (Header_Set (w ?s1) ''Content-Type'' ''application/json'')
                             (ChatCompletion ?resp))\<rparr>)"
    by (simp add: run)
  have query:
    "map_of (Req_Query ?youReq) ''selectedAiModel'' = Some (QString ''gpt_4o'')"
    "map_of (Req_Query ?youReq) ''chat'' = Some (QJson [\<lparr>question = ''Hi'', answer = []\<rparr>])"
    "map_of (Req_Query ?youReq) ''pastChatLength'' = Some (QString ''0'')"
    by (simp_all add: buildYouRequest_def Let_def Sprintf_d_0 mapModelName_entry [OF gpt_4o_entry])
  have model: "Response_Model ?resp = ''gpt-4o''"
    using roundtrip_entry [OF assms(1) gpt_4o_entry] by simp
  have choices: "Response_Choices ?resp =
      [\<lparr>OpenAIChoice_Message = \<lparr>Role = ''assistant'', Content = ''Hello!''\<rparr>,
         OpenAIChoice_Index = 0, OpenAIChoice_FinishReason = ''stop''\<rparr>]"
    by simp
  have written: "Written (w (?s1\<lparr>sent := sent ?s1 @ [?youReq], ticks := ticks ?s1 + 2,
                  w := snd (Write (Header_Set (w ?s1) ''Content-Type'' ''application/json'')
                             (ChatCompletion ?resp))\<rparr>)) = Written (w s) @ [ChatCompletion ?resp]"
    using assms(8) by simp
  have sent: "sent (?s1\<lparr>sent := sent ?s1 @ [?youReq], ticks := ticks ?s1 + 2,
                  w := snd (Write (Header_Set (w ?s1) ''Content-Type'' ''application/json'')
                             (ChatCompletion ?resp))\<rparr>) = sent s @ [?youReq]"
    by simp
  from out sent query written model choices show ?thesis by blast
qed

theorem end_to_end_example_witness:
  \<open>\<exists>s' youReq resp.
     Handler (sample_env [''event: youChatToken'', ''data: {"youChatToken":"Hel"}'',
                          ''event: youChatToken'', ''data: {"youChatToken":"lo!"}''])
       \<lparr>URL_Path = ''/v1/chat/completions'', Method = ''POST'', Authorization = ''Bearer abc'',
          Body_Decode = Some \<lparr>Messages = [\<lparr>Role = ''user'', Content = ''Hi''\<rparr>], Stream = False,
                                Model = ''gpt-4o''\<rparr>\<rparr>
       new_world = Return s' \<and>
     sent s' = [youReq] \<and>
     map_of (Req_Query youReq) ''selectedAiModel'' = Some (QString ''gpt_4o'') \<and>
     map_of (Req_Query youReq) ''chat'' = Some (QJson [\<lparr>question = ''Hi'', answer = []\<rparr>]) \<and>
     map_of (Req_Query youReq) ''pastChatLength'' = Some (QString ''0'') \<and>
     Written (w s') = [ChatCompletion resp] \<and>
     Response_Model resp = ''gpt-4o'' \<and>
     Response_Choices resp =
       [\<lparr>OpenAIChoice_Message = \<lparr>Role = ''assistant'', Content = ''Hello!''\<rparr>,
          OpenAIChoice_Index = 0, OpenAIChoice_FinishReason = ''stop''\<rparr>]\<close>
proof -
  let ?body = \<open>[''event: youChatToken'', ''data: {"youChatToken":"Hel"}'',
                ''event: youChatToken'', ''data: {"youChatToken":"lo!"}'']\<close>
  let ?env = "sample_env ?body"
  let ?r = "\<lparr>URL_Path = ''/v1/chat/completions'', Method = ''POST'', Authorization = ''Bearer abc'',
              Body_Decode = Some \<lparr>Messages = [\<lparr>Role = ''user'', Content = ''Hi''\<rparr>],
                                    Stream = False, Model = ''gpt-4o''\<rparr>\<rparr>"
  have 1: "mset (range_map ?env modelMap) = mset modelMap" by simp
  have 2: "\<And>req. client_Do ?env req = DoResponse ?body False" by simp
  have 3: \<open>Unmarshal ?env ''{"youChatToken":"Hel"}'' zero_token = (False, \<lparr>YouChatToken = ''Hel''\<rparr>)\<close>
    by (simp add: decode_flat_Hel)
  have 4: \<open>Unmarshal ?env ''{"youChatToken":"lo!"}'' zero_token = (False, \<lparr>YouChatToken = ''lo!''\<rparr>)\<close>
    by (simp add: decode_flat_lo)
  have 5: "chat_route ?r" by (simp add: chat_route_def)
  have 6: "HasPrefix (Authorization ?r) ''Bearer ''" by (simp add: HasPrefix_def)
  have 7: "Body_Decode ?r = Some \<lparr>Messages = [\<lparr>Role = ''user'', Content = ''Hi''\<rparr>],
                                    Stream = False, Model = ''gpt-4o''\<rparr>" by simp
  have 8: "\<not> Broken (w new_world)" by simp
  from end_to_end_example [OF 1 2 3 4 5 6 7 8]
  show ?thesis by simp
qed

end
